theory Spec2Isabelle
  imports Main "HOL-Library.Sublist"
begin

section \<open>Values of the program\<close>

text \<open>
  A Python \<open>str\<close> is a sequence of Unicode code points. The messages of
  \<open>homework.py\<close> are Russian, so a string is modelled as the list of its code points;
  \<open>ascii\<close> embeds a string literal written in ASCII.
\<close>

type_synonym pystr = "nat list"

definition ascii :: "string \<Rightarrow> pystr" where
  "ascii s = map of_char s"

text \<open>
  What \<open>response.json()\<close> can return: the Python values that JSON decodes to. A JSON
  object has string keys; it is kept as an association list that \<open>map_of\<close> reads.
  A float is a finite binary fraction (mantissa and exponent), a negative zero, an
  infinity (\<open>True\<close> for the negative one) or a NaN: the decoder of Python accepts all of them.
\<close>

datatype pyfloat = Finite int int | NegZero | Infinity bool | NaN

datatype pyval =
    PNone
  | PBool bool
  | PInt int
  | PFloat pyfloat
  | PStr pystr
  | PList "pyval list"
  | PDict "(pystr \<times> pyval) list"

text \<open>
  The exceptions of the program, one constructor for each class, with the argument the
  exception was built from. \<open>SystemExit\<close> is raised at startup only.
\<close>

datatype py_exception =
    ConnectionError pystr
  | Exception pystr
  | TypeError pystr
  | KeyError pystr
  | IndexError pystr
  | AttributeError pystr
  | JSONDecodeError pystr
  | InvalidToken pystr
  | SystemExit pystr

fun exc_arg :: "py_exception \<Rightarrow> pystr" where
  "exc_arg (ConnectionError m) = m"
| "exc_arg (Exception m) = m"
| "exc_arg (TypeError m) = m"
| "exc_arg (KeyError m) = m"
| "exc_arg (IndexError m) = m"
| "exc_arg (AttributeError m) = m"
| "exc_arg (JSONDecodeError m) = m"
| "exc_arg (InvalidToken m) = m"
| "exc_arg (SystemExit m) = m"

text \<open>
  \<open>str(error)\<close>, as the f-string of the loop formats it. It is the argument, except for a
  \<open>KeyError\<close>, whose \<open>str\<close> is the \<open>repr\<close> of its argument: the argument between single
  quotes (code point 39). That is the \<open>repr\<close> of a string with no single quote, no
  backslash and no unprintable code point, which the four \<open>KeyError\<close> messages of this
  program are.
\<close>

fun exc_str :: "py_exception \<Rightarrow> pystr" where
  "exc_str (KeyError m) = [39] @ m @ [39]"
| "exc_str e = exc_arg e"

text \<open>The logger: each call is recorded with its level and its message.\<close>

datatype level = DEBUG | INFO | ERROR | CRITICAL

type_synonym log_entry = "level \<times> pystr"

subsection \<open>Python's built-in operations on these values\<close>

text \<open>Truth value of an object, as \<open>if homeworks:\<close> tests it.\<close>

fun float_nonzero :: "pyfloat \<Rightarrow> bool" where
  "float_nonzero (Finite m e) = (m \<noteq> 0)"
| "float_nonzero NegZero = False"
| "float_nonzero (Infinity neg) = True"
| "float_nonzero NaN = True"

fun truthy :: "pyval \<Rightarrow> bool" where
  "truthy PNone = False"
| "truthy (PBool b) = b"
| "truthy (PInt n) = (n \<noteq> 0)"
| "truthy (PFloat f) = float_nonzero f"
| "truthy (PStr s) = (s \<noteq> [])"
| "truthy (PList xs) = (xs \<noteq> [])"
| "truthy (PDict d) = (d \<noteq> [])"

fun type_name :: "pyval \<Rightarrow> pystr" where
  "type_name PNone = ascii ''NoneType''"
| "type_name (PBool b) = ascii ''bool''"
| "type_name (PInt n) = ascii ''int''"
| "type_name (PFloat f) = ascii ''float''"
| "type_name (PStr s) = ascii ''str''"
| "type_name (PList xs) = ascii ''list''"
| "type_name (PDict d) = ascii ''dict''"

text \<open>Lists and dicts have no hash: using one as a key, or testing it with \<open>in\<close> against a
  dict, raises \<open>TypeError\<close> (with the text that CPython gives up to version 3.13).\<close>

fun hashable :: "pyval \<Rightarrow> bool" where
  "hashable (PList xs) = False"
| "hashable (PDict d) = False"
| "hashable v = True"

definition unhashable :: "pyval \<Rightarrow> py_exception" where
  "unhashable v = TypeError (ascii ''unhashable type: '' @ [39] @ type_name v @ [39])"

text \<open>
  \<open>key in d\<close> and \<open>d[key]\<close> for a dict \<open>d\<close> whose keys are strings: the key is hashed first;
  a key that is not a string equals no key of \<open>d\<close>. The result is \<open>None\<close> when \<open>key not in d\<close>.
\<close>

definition dict_lookup :: "(pystr \<times> 'v) list \<Rightarrow> pyval \<Rightarrow> py_exception + 'v option" where
  "dict_lookup d key =
     (if \<not> hashable key then Inl (unhashable key)
      else case key of PStr k \<Rightarrow> Inr (map_of d k) | _ \<Rightarrow> Inr None)"

text \<open>\<open>d.get(key)\<close> with a string key: \<open>None\<close> when the key is absent.\<close>

definition dict_get :: "(pystr \<times> pyval) list \<Rightarrow> pystr \<Rightarrow> pyval" where
  "dict_get d k = (case map_of d k of None \<Rightarrow> PNone | Some v \<Rightarrow> v)"

text \<open>\<open>str\<close> of an integer: its decimal digits (code point 48 is the digit zero, 45 the
  minus sign).\<close>

fun str_nat :: "nat \<Rightarrow> pystr" where
  "str_nat n = (if n < 10 then [48 + n] else str_nat (n div 10) @ [48 + n mod 10])"

declare str_nat.simps [simp del]

definition str_int :: "int \<Rightarrow> pystr" where
  "str_int i = (if i < 0 then 45 # str_nat (nat (- i)) else str_nat (nat i))"

text \<open>
  \<open>str\<close> of a value, as an f-string formats it. A string is itself; \<open>None\<close>, booleans and
  integers are spelled out. The text of a float and of a container (which nests the
  \<open>repr\<close> of its elements) is Python's own business: it is the parameter \<open>fmt\<close>.
\<close>

fun py_str :: "(pyval \<Rightarrow> pystr) \<Rightarrow> pyval \<Rightarrow> pystr" where
  "py_str fmt (PStr s) = s"
| "py_str fmt PNone = ascii ''None''"
| "py_str fmt (PBool b) = (if b then ascii ''True'' else ascii ''False'')"
| "py_str fmt (PInt n) = str_int n"
| "py_str fmt v = fmt v"

section \<open>Module constants\<close>

text \<open>The environment, read once when the module is loaded: \<open>os.getenv\<close> gives \<open>None\<close> for
  a variable that is not set and its text, which may be empty, for one that is.\<close>

record environ =
  PRACTICUM_TOKEN :: "pystr option"
  TELEGRAM_TOKEN :: "pystr option"
  TELEGRAM_CHAT_ID :: "pystr option"

definition RETRY_PERIOD :: nat where
  "RETRY_PERIOD = 600"

definition ENDPOINT :: pystr where
  "ENDPOINT = ascii ''https://practicum.yandex.ru/api/user_api/homework_statuses/''"

text \<open>The verdict texts, in Russian: "the work is checked: the reviewer liked everything.
  Hooray!", "the work is taken for checking by the reviewer.", "the work is checked: the
  reviewer has remarks."\<close>

definition verdict_approved :: pystr where
  "verdict_approved =
     [1056, 1072, 1073, 1086, 1090, 1072, 32, 1087, 1088, 1086, 1074, 1077, 1088, 1077, 1085,
      1072, 58, 32, 1088, 1077, 1074, 1100, 1102, 1077, 1088, 1091, 32, 1074, 1089, 1105, 32,
      1087, 1086, 1085, 1088, 1072, 1074, 1080, 1083, 1086, 1089, 1100, 46, 32, 1059, 1088,
      1072, 33]"

definition verdict_reviewing :: pystr where
  "verdict_reviewing =
     [1056, 1072, 1073, 1086, 1090, 1072, 32, 1074, 1079, 1103, 1090, 1072, 32, 1085, 1072,
      32, 1087, 1088, 1086, 1074, 1077, 1088, 1082, 1091, 32, 1088, 1077, 1074, 1100, 1102,
      1077, 1088, 1086, 1084, 46]"

definition verdict_rejected :: pystr where
  "verdict_rejected =
     [1056, 1072, 1073, 1086, 1090, 1072, 32, 1087, 1088, 1086, 1074, 1077, 1088, 1077, 1085,
      1072, 58, 32, 1091, 32, 1088, 1077, 1074, 1100, 1102, 1077, 1088, 1072, 32, 1077, 1089,
      1090, 1100, 32, 1079, 1072, 1084, 1077, 1095, 1072, 1085, 1080, 1103, 46]"

definition HOMEWORK_VERDICTS :: "(pystr \<times> pystr) list" where
  "HOMEWORK_VERDICTS =
     [(ascii ''approved'', verdict_approved),
      (ascii ''reviewing'', verdict_reviewing),
      (ascii ''rejected'', verdict_rejected)]"

subsection \<open>Message texts\<close>

text \<open>Line 55, logged before the request: "sending a request to the Practicum API".\<close>

definition msg_request :: pystr where
  "msg_request =
     [1054, 1090, 1087, 1088, 1072, 1074, 1083, 1103, 1077, 1084, 32, 1079, 1072, 1087, 1088,
      1086, 1089, 32, 1082, 32, 65, 80, 73, 32, 1055, 1088, 1072, 1082, 1090, 1080, 1082, 1091,
      1084, 1072]"

text \<open>Line 61: "problems with the connection to the server".\<close>

definition msg_connection :: pystr where
  "msg_connection =
     [1055, 1088, 1086, 1073, 1083, 1077, 1084, 1099, 32, 1089, 32, 1087, 1086, 1076, 1082,
      1083, 1102, 1095, 1077, 1085, 1080, 1077, 1084, 32, 1082, 32, 1089, 1077, 1088, 1074,
      1077, 1088, 1091]"

text \<open>Lines 65 and 66, around the endpoint: "endpoint " and " is unavailable. Response code
  of the API: ".\<close>

definition msg_endpoint :: pystr where
  "msg_endpoint = [1069, 1085, 1076, 1087, 1086, 1080, 1085, 1090, 32]"

definition msg_unavailable :: pystr where
  "msg_unavailable =
     [32, 1085, 1077, 1076, 1086, 1089, 1090, 1091, 1087, 1077, 1085, 46, 32, 1050, 1086,
      1076, 32, 1086, 1090, 1074, 1077, 1090, 1072, 32, 65, 80, 73, 58, 32]"

text \<open>Line 74, logged before the checks: "starting to check the server's response".\<close>

definition msg_checking :: pystr where
  "msg_checking =
     [1053, 1072, 1095, 1080, 1085, 1072, 1077, 1084, 32, 1087, 1088, 1086, 1074, 1077, 1088,
      1082, 1091, 32, 1086, 1090, 1074, 1077, 1090, 1072, 32, 1089, 1077, 1088, 1074, 1077,
      1088, 1072]"

text \<open>The common start of the shape errors: "incorrect response of the API - ".\<close>

definition msg_incorrect :: pystr where
  "msg_incorrect =
     [1053, 1077, 1082, 1086, 1088, 1088, 1077, 1082, 1090, 1085, 1099, 1081, 32, 1086, 1090,
      1074, 1077, 1090, 32, 1086, 1090, 32, 65, 80, 73, 32, 45, 32]"

text \<open>Line 76: "... a dict was expected".\<close>

definition msg_expected_dict :: pystr where
  "msg_expected_dict =
     msg_incorrect @ [1086, 1078, 1080, 1076, 1072, 1083, 1089, 1103, 32, 1089, 1083, 1086,
       1074, 1072, 1088, 1100]"

text \<open>The common part of the key errors: "the dict lacks ", then (lines 80 and 81)
  "the necessary key" or (lines 98, 99, 105 and 106) "the key " and the quoted key.\<close>

definition msg_dict_lacks :: pystr where
  "msg_dict_lacks =
     msg_incorrect @ [1074, 32, 1089, 1083, 1086, 1074, 1072, 1088, 1077, 32, 1086, 1090,
       1089, 1091, 1090, 1089, 1090, 1074, 1091, 1077, 1090, 32]"

definition msg_missing_key :: pystr where
  "msg_missing_key =
     msg_dict_lacks @ [1085, 1077, 1086, 1073, 1093, 1086, 1076, 1080, 1084, 1099, 1081, 32,
       1082, 1083, 1102, 1095]"

definition msg_no_key :: "string \<Rightarrow> pystr" where
  "msg_no_key k = msg_dict_lacks @ [1082, 1083, 1102, 1095, 32, 34] @ ascii k @ [34]"

text \<open>Lines 87 and 88: "... "homeworks" must have the type list".\<close>

definition msg_not_list :: pystr where
  "msg_not_list =
     msg_incorrect @ [34] @ ascii ''homeworks'' @ [34, 32, 1076, 1086, 1083, 1078, 1077, 1085,
       32, 1080, 1084, 1077, 1090, 1100, 32, 1090, 1080, 1087, 32] @ ascii ''list''"

text \<open>Lines 112 and 113: "... undocumented status of the homework".\<close>

definition msg_undocumented :: pystr where
  "msg_undocumented =
     msg_incorrect @ [1085, 1077, 1076, 1086, 1082, 1091, 1084, 1077, 1085, 1090, 1080, 1088,
       1086, 1074, 1072, 1085, 1085, 1099, 1081, 32, 1089, 1090, 1072, 1090, 1091, 1089, 32,
       1076, 1086, 1084, 1072, 1096, 1085, 1077, 1081, 32, 1088, 1072, 1073, 1086, 1090, 1099]"

text \<open>Line 117: "the review status of the work " and an opening double quote; the name is
  followed by a closing double quote, a full stop and a space.\<close>

definition msg_status_changed :: pystr where
  "msg_status_changed =
     [1048, 1079, 1084, 1077, 1085, 1080, 1083, 1089, 1103, 32, 1089, 1090, 1072, 1090, 1091,
      1089, 32, 1087, 1088, 1086, 1074, 1077, 1088, 1082, 1080, 32, 1088, 1072, 1073, 1086,
      1090, 1099, 32, 34]"

text \<open>Lines 42 and 48: "the bot sent the message: ".\<close>

definition msg_bot_sent :: pystr where
  "msg_bot_sent =
     [1041, 1086, 1090, 32, 1086, 1090, 1087, 1088, 1072, 1074, 1080, 1083, 32, 1089, 1086,
      1086, 1073, 1097, 1077, 1085, 1080, 1077, 58, 32]"

text \<open>Line 50: "error while sending the message: ".\<close>

definition msg_send_error :: pystr where
  "msg_send_error =
     [1054, 1096, 1080, 1073, 1082, 1072, 32, 1087, 1088, 1080, 32, 1086, 1090, 1087, 1088,
      1072, 1074, 1082, 1077, 32, 1089, 1086, 1086, 1073, 1097, 1077, 1085, 1080, 1103, 58, 32]"

text \<open>Line 125: "a mandatory environment variable is missing"; line 126: "the program is
  stopped by force.".\<close>

definition msg_no_variable :: pystr where
  "msg_no_variable =
     [1054, 1090, 1089, 1091, 1090, 1089, 1090, 1074, 1091, 1077, 1090, 32, 1086, 1073, 1103,
      1079, 1072, 1090, 1077, 1083, 1100, 1085, 1072, 1103, 32, 1087, 1077, 1088, 1077, 1084,
      1077, 1085, 1085, 1072, 1103, 32, 1086, 1082, 1088, 1091, 1078, 1077, 1085, 1080, 1103]"

definition msg_stopped :: pystr where
  "msg_stopped =
     [1055, 1088, 1086, 1075, 1088, 1072, 1084, 1084, 1072, 32, 1087, 1088, 1080, 1085, 1091,
      1076, 1080, 1090, 1077, 1083, 1100, 1085, 1086, 32, 1086, 1089, 1090, 1072, 1085, 1086,
      1074, 1083, 1077, 1085, 1072, 46]"

text \<open>Line 140: "the response has no new status".\<close>

definition msg_no_new_status :: pystr where
  "msg_no_new_status =
     [1042, 32, 1086, 1090, 1074, 1077, 1090, 1077, 32, 1086, 1090, 1089, 1091, 1090, 1089,
      1090, 1074, 1091, 1077, 1090, 32, 1085, 1086, 1074, 1099, 1081, 32, 1089, 1090, 1072,
      1090, 1091, 1089]"

text \<open>Line 143: "failure in the work of the program: ".\<close>

definition msg_failure :: pystr where
  "msg_failure =
     [1057, 1073, 1086, 1081, 32, 1074, 32, 1088, 1072, 1073, 1086, 1090, 1077, 32, 1087, 1088,
      1086, 1075, 1088, 1072, 1084, 1084, 1099, 58, 32]"

section \<open>The operations of \<open>homework.py\<close>\<close>

subsection \<open>\<open>check_tokens\<close>\<close>

definition check_tokens :: "environ \<Rightarrow> bool" where
  "check_tokens env =
     list_all (\<lambda>v. v \<noteq> None) [PRACTICUM_TOKEN env, TELEGRAM_TOKEN env, TELEGRAM_CHAT_ID env]"

subsection \<open>\<open>send_message\<close>\<close>

text \<open>
  What \<open>bot.send_message\<close> does with one message is decided outside the program: the
  call returns, or it raises a \<open>telegram.error.TelegramError\<close>, the class under which the
  library reports every failure of a send (network errors, timeouts and the refusals of
  the server are its subclasses) and the class \<open>send_message\<close> catches. The failure
  carries its description, \<open>str(error)\<close>.
\<close>

datatype send_result = Sent | TelegramError pystr

text \<open>\<open>send_message\<close> returns nothing; the model returns the lines it logs.\<close>

definition send_message :: "send_result \<Rightarrow> pystr \<Rightarrow> log_entry list" where
  "send_message bot' message =
     (INFO, msg_bot_sent @ message) #
     (case bot' of
        Sent \<Rightarrow> [(DEBUG, msg_bot_sent @ message)]
      | TelegramError error \<Rightarrow> [(ERROR, msg_send_error @ error)])"

subsection \<open>\<open>get_api_answer\<close>\<close>

text \<open>
  What the server does with one request is decided outside the program as well:
  \<open>requests.get\<close> raises, or it returns a response with a status code and a body, and
  \<open>response.json()\<close> either raises (with a description of what is wrong with the body) or
  returns the decoded value. The server is a function of the \<open>from_date\<close> parameter.
\<close>

datatype http_result = RequestFailed | Response int "pystr + pyval"

definition get_api_answer ::
  "(pyval \<Rightarrow> http_result) \<Rightarrow> pyval \<Rightarrow> log_entry list \<times> (py_exception + pyval)" where
  "get_api_answer api current_timestamp =
     ([(INFO, msg_request)],
      case api current_timestamp of
        RequestFailed \<Rightarrow> Inl (ConnectionError msg_connection)
      | Response status_code body \<Rightarrow>
          if status_code \<noteq> 200
          then Inl (Exception (msg_endpoint @ ENDPOINT @ msg_unavailable @ str_int status_code))
          else (case body of Inl description \<Rightarrow> Inl (JSONDecodeError description)
                | Inr decoded \<Rightarrow> Inr decoded))"

subsection \<open>\<open>check_response\<close>\<close>

definition check_response :: "pyval \<Rightarrow> log_entry list \<times> (py_exception + pyval)" where
  "check_response response =
     ([(INFO, msg_checking)],
      case response of
        PDict d \<Rightarrow>
          if map_of d (ascii ''homeworks'') = None \<or> map_of d (ascii ''current_date'') = None
          then Inl (KeyError msg_missing_key)
          else (case dict_get d (ascii ''homeworks'') of
                  PList homeworks \<Rightarrow>
                    (case homeworks of
                       [] \<Rightarrow> Inl (IndexError (ascii ''list index out of range''))
                     | first # rest \<Rightarrow> Inr first)
                | _ \<Rightarrow> Inl (TypeError msg_not_list))
      | _ \<Rightarrow> Inl (TypeError msg_expected_dict))"

subsection \<open>\<open>parse_status\<close>\<close>

text \<open>An object that is not a dict has no method \<open>keys\<close> (nor \<open>get\<close>).\<close>

definition no_attribute :: "pyval \<Rightarrow> string \<Rightarrow> py_exception" where
  "no_attribute v name =
     AttributeError ([39] @ type_name v @ [39] @ ascii '' object has no attribute '' @
       [39] @ ascii name @ [39])"

definition parse_status :: "(pyval \<Rightarrow> pystr) \<Rightarrow> pyval \<Rightarrow> py_exception + pystr" where
  "parse_status fmt homework =
     (case homework of
        PDict d \<Rightarrow>
          (case map_of d (ascii ''homework_name'') of
             None \<Rightarrow> Inl (KeyError (msg_no_key ''homework_name''))
           | Some homework_name \<Rightarrow>
               (case map_of d (ascii ''status'') of
                  None \<Rightarrow> Inl (KeyError (msg_no_key ''status''))
                | Some status \<Rightarrow>
                    (case dict_lookup HOMEWORK_VERDICTS status of
                       Inl error \<Rightarrow> Inl error
                     | Inr None \<Rightarrow> Inl (KeyError msg_undocumented)
                     | Inr (Some verdict) \<Rightarrow>
                         Inr (msg_status_changed @ py_str fmt homework_name @ [34, 46, 32] @
                              verdict))))
      | _ \<Rightarrow> Inl (no_attribute homework ''keys''))"

subsection \<open>\<open>main\<close>\<close>

text \<open>
  The variables of the loop, and what the loop has done so far: the lines logged, the texts
  handed to \<open>bot.send_message\<close> (oldest first) and the seconds slept.
\<close>

record loop_state =
  current_timestamp :: pyval
  previous_message :: pystr
  message :: pystr
  log :: "log_entry list"
  outbox :: "pystr list"
  slept :: nat

text \<open>
  Startup: the check of the tokens, the construction of the bot and the initial values of
  the variables (\<open>now\<close> is \<open>int(time.time())\<close>). The constructor \<open>telegram.Bot\<close> belongs to the
  library: it is the parameter \<open>Bot\<close>, which returns a bot or raises.
\<close>

definition initial_state :: "int \<Rightarrow> loop_state" where
  "initial_state now =
     \<lparr>current_timestamp = PInt now, previous_message = [], message = [], log = [],
      outbox = [], slept = 0\<rparr>"

definition main_start ::
  "(pystr option \<Rightarrow> py_exception + 'b) \<Rightarrow> environ \<Rightarrow> int \<Rightarrow>
     log_entry list \<times> (py_exception + 'b \<times> loop_state)" where
  "main_start Bot env now =
     (if check_tokens env
      then (case Bot (TELEGRAM_TOKEN env) of
              Inl error \<Rightarrow> ([], Inl error)
            | Inr bot' \<Rightarrow> ([], Inr (bot', initial_state now)))
      else ([(CRITICAL, msg_no_variable)], Inl (SystemExit msg_stopped)))"

text \<open>
  Lines 136 to 138 and again lines 145 to 147: the message is sent and remembered when it
  differs from the last one sent.
\<close>

definition notify_new :: "send_result \<Rightarrow> loop_state \<Rightarrow> loop_state" where
  "notify_new bot' s =
     (if message s \<noteq> previous_message s
      then s\<lparr>log := log s @ send_message bot' (message s),
             outbox := outbox s @ [message s],
             previous_message := message s\<rparr>
      else s)"

text \<open>\<open>response.get('current_date')\<close>.\<close>

definition py_get :: "pyval \<Rightarrow> string \<Rightarrow> py_exception + pyval" where
  "py_get v key =
     (case v of PDict d \<Rightarrow> Inr (dict_get d (ascii key)) | _ \<Rightarrow> Inl (no_attribute v ''get''))"

text \<open>
  The body of the \<open>try\<close> (lines 132 to 141): the state it leaves, and the exception it
  raised, if any. What was logged before an exception stays logged.
\<close>

definition main_try ::
  "(pyval \<Rightarrow> pystr) \<Rightarrow> (pyval \<Rightarrow> http_result) \<Rightarrow> send_result \<Rightarrow> loop_state \<Rightarrow>
     loop_state \<times> py_exception option" where
  "main_try fmt api bot' s =
     (case get_api_answer api (current_timestamp s) of
        (l1, r1) \<Rightarrow>
          let s1 = s\<lparr>log := log s @ l1\<rparr> in
          (case r1 of
             Inl error \<Rightarrow> (s1, Some error)
           | Inr response \<Rightarrow>
               (case check_response response of
                  (l2, r2) \<Rightarrow>
                    let s2 = s1\<lparr>log := log s1 @ l2\<rparr> in
                    (case r2 of
                       Inl error \<Rightarrow> (s2, Some error)
                     | Inr homeworks \<Rightarrow>
                         (case (if truthy homeworks
                                then (case parse_status fmt homeworks of
                                        Inl error \<Rightarrow> Inl error
                                      | Inr m \<Rightarrow> Inr (notify_new bot' (s2\<lparr>message := m\<rparr>)))
                                else Inr (s2\<lparr>log := log s2 @ [(DEBUG, msg_no_new_status)]\<rparr>)) of
                            Inl error \<Rightarrow> (s2, Some error)
                          | Inr s3 \<Rightarrow>
                              (case py_get response ''current_date'' of
                                 Inl error \<Rightarrow> (s3, Some error)
                               | Inr v \<Rightarrow> (s3\<lparr>current_timestamp := v\<rparr>, None)))))))"

text \<open>The \<open>except Exception\<close> handler (lines 142 to 147).\<close>

definition main_except :: "send_result \<Rightarrow> py_exception \<Rightarrow> loop_state \<Rightarrow> loop_state" where
  "main_except bot' error s =
     notify_new bot'
       (s\<lparr>message := msg_failure @ exc_str error,
          log := log s @ [(ERROR, msg_failure @ exc_str error)]\<rparr>)"

text \<open>One pass of \<open>while True\<close>: the \<open>try\<close>, the handler when it raised, and the sleep of
  the \<open>finally\<close>.\<close>

definition main_cycle ::
  "(pyval \<Rightarrow> pystr) \<Rightarrow> (pyval \<Rightarrow> http_result) \<Rightarrow> send_result \<Rightarrow> loop_state \<Rightarrow> loop_state" where
  "main_cycle fmt api bot' s =
     (case main_try fmt api bot' s of
        (s', None) \<Rightarrow> s'\<lparr>slept := slept s' + RETRY_PERIOD\<rparr>
      | (s', Some error) \<Rightarrow>
          (let s'' = main_except bot' error s' in s''\<lparr>slept := slept s'' + RETRY_PERIOD\<rparr>))"

text \<open>
  The loop never ends. Its first passes, one for each element of the list, which gives
  what the server and the bot do in that pass.
\<close>

fun main_loop ::
  "(pyval \<Rightarrow> pystr) \<Rightarrow> ((pyval \<Rightarrow> http_result) \<times> send_result) list \<Rightarrow> loop_state \<Rightarrow>
     loop_state" where
  "main_loop fmt [] s = s"
| "main_loop fmt ((api, bot') # rest) s = main_loop fmt rest (main_cycle fmt api bot' s)"

section \<open>Notions the properties are stated with\<close>

text \<open>
  What the first three steps of a pass come to, for a server \<open>api\<close> and a cursor \<open>t\<close>:
  the exception that the fetch, the validation or the translation raises, or else the
  translated message, or \<open>None\<close> when the record that validation returns is false.
\<close>

definition cycle_result ::
  "(pyval \<Rightarrow> pystr) \<Rightarrow> (pyval \<Rightarrow> http_result) \<Rightarrow> pyval \<Rightarrow> py_exception + pystr option" where
  "cycle_result fmt api t =
     (case snd (get_api_answer api t) of
        Inl error \<Rightarrow> Inl error
      | Inr response \<Rightarrow>
          (case snd (check_response response) of
             Inl error \<Rightarrow> Inl error
           | Inr homeworks \<Rightarrow>
               if truthy homeworks
               then (case parse_status fmt homeworks of
                       Inl error \<Rightarrow> Inl error
                     | Inr m \<Rightarrow> Inr (Some m))
               else Inr None))"

text \<open>The message that a pass produces and compares with the last one sent: the translated
  one, or the failure message; \<open>None\<close> when the pass has nothing to say.\<close>

definition produced ::
  "(pyval \<Rightarrow> pystr) \<Rightarrow> (pyval \<Rightarrow> http_result) \<Rightarrow> pyval \<Rightarrow> pystr option" where
  "produced fmt api t =
     (case cycle_result fmt api t of
        Inl error \<Rightarrow> Some (msg_failure @ exc_str error)
      | Inr m \<Rightarrow> m)"

text \<open>The state without its log.\<close>

definition forget_log :: "loop_state \<Rightarrow> loop_state" where
  "forget_log s = s\<lparr>log := []\<rparr>"

fun is_dict :: "pyval \<Rightarrow> bool" where
  "is_dict (PDict d) = True"
| "is_dict v = False"

fun is_list :: "pyval \<Rightarrow> bool" where
  "is_list (PList xs) = True"
| "is_list v = False"

fun is_int :: "pyval \<Rightarrow> bool" where
  "is_int (PInt n) = True"
| "is_int v = False"

subsection \<open>Concrete inputs\<close>

text \<open>A rendering of floats and containers for the examples, none of which formats one.\<close>

definition plain_fmt :: "pyval \<Rightarrow> pystr" where
  "plain_fmt v = []"

text \<open>A server that gives the same result to every request, and the result of a request
  that is answered 200 with a body that decodes to \<open>v\<close>.\<close>

definition always :: "http_result \<Rightarrow> pyval \<Rightarrow> http_result" where
  "always r t = r"

definition ok :: "pyval \<Rightarrow> http_result" where
  "ok v = Response 200 (Inr v)"

text \<open>The response \<open>{"homeworks": [], "current_date": 1000}\<close>.\<close>

definition empty_response :: pyval where
  "empty_response = PDict [(ascii ''homeworks'', PList []), (ascii ''current_date'', PInt 1000)]"

text \<open>The response \<open>{"homeworks": [{"homework_name": "proj1", "status": "reviewing"}],
  "current_date": 1000}\<close>, and the message its record translates to.\<close>

definition reviewing_homework :: pyval where
  "reviewing_homework =
     PDict [(ascii ''homework_name'', PStr (ascii ''proj1'')),
            (ascii ''status'', PStr (ascii ''reviewing''))]"

definition reviewing_response :: pyval where
  "reviewing_response =
     PDict [(ascii ''homeworks'', PList [reviewing_homework]),
            (ascii ''current_date'', PInt 1000)]"

definition reviewing_message :: pystr where
  "reviewing_message = msg_status_changed @ ascii ''proj1'' @ [34, 46, 32] @ verdict_reviewing"

text \<open>A record whose status is a JSON array:
  \<open>{"homework_name": "proj1", "status": []}\<close>.\<close>

definition list_status_homework :: pyval where
  "list_status_homework =
     PDict [(ascii ''homework_name'', PStr (ascii ''proj1'')), (ascii ''status'', PList [])]"

text \<open>The response \<open>{"homeworks": [{}], "current_date": null}\<close>: its first record is an
  empty dict, and its \<open>current_date\<close> is not an integer.\<close>

definition null_date_response :: pyval where
  "null_date_response =
     PDict [(ascii ''homeworks'', PList [PDict []]), (ascii ''current_date'', PNone)]"

text \<open>The response \<open>{"homeworks": [{"homework_name": "proj1", "status": "accepted"}],
  "current_date": null}\<close>: it has both keys and a list of records, the status of its
  first record is none of the three, and its \<open>current_date\<close> is not an integer.\<close>

definition accepted_homework :: pyval where
  "accepted_homework =
     PDict [(ascii ''homework_name'', PStr (ascii ''proj1'')),
            (ascii ''status'', PStr (ascii ''accepted''))]"

definition accepted_response :: pyval where
  "accepted_response =
     PDict [(ascii ''homeworks'', PList [accepted_homework]), (ascii ''current_date'', PNone)]"

text \<open>A server that answers with \<open>{"homeworks": [{}], "current_date": null}\<close> when
  \<open>from_date\<close> is an integer, and cannot be reached otherwise.\<close>

definition strict_api :: "pyval \<Rightarrow> http_result" where
  "strict_api t = (if is_int t then ok null_date_response else RequestFailed)"

text \<open>A server that answers 200 with a body that is not JSON, such as a page of HTML:
  \<open>response.json()\<close> raises, with the description "Expecting value".\<close>

definition html_api :: "pyval \<Rightarrow> http_result" where
  "html_api t = Response 200 (Inl (ascii ''Expecting value''))"

text \<open>
  A constructor of the bot that refuses the empty token, as \<open>telegram.Bot\<close> of
  python-telegram-bot does (it raises \<open>InvalidToken\<close>), and that returns a bot, here the
  token it was given, for any other token. \<open>main\<close> never calls it with \<open>None\<close>.
\<close>

definition strict_Bot :: "pystr option \<Rightarrow> py_exception + pystr" where
  "strict_Bot token =
     (case token of
        None \<Rightarrow> Inl (InvalidToken (ascii ''Invalid token''))
      | Some tok \<Rightarrow>
          if tok = [] then Inl (InvalidToken (ascii ''Invalid token'')) else Inr tok)"

section \<open>Properties\<close>

subsection \<open>Evaluating strings\<close>

lemma ascii_eq_iff [simp]: "ascii a = ascii b \<longleftrightarrow> a = b"
  by (simp add: ascii_def inj_map_eq_map inj_of_char)

lemma ascii_Nil [simp]: "ascii [] = []"
  by (simp add: ascii_def)

lemma ascii_eq_Nil [simp]: "ascii s = [] \<longleftrightarrow> s = []"
  by (simp add: ascii_def)

lemma msg_failure_not_Nil [simp]: "msg_failure \<noteq> []"
  by (simp add: msg_failure_def)

subsection \<open>The response validator\<close>

lemma check_response_not_dict:
  "\<not> is_dict response \<Longrightarrow> snd (check_response response) = Inl (TypeError msg_expected_dict)"
  by (cases response) (simp_all add: check_response_def)

text \<open>
  C4. \<open>check_response\<close> applies its checks in this order. A response that is not a dict
  fails with the \<open>TypeError\<close> "a dict was expected". A dict that lacks \<open>homeworks\<close> or
  \<open>current_date\<close> fails with the \<open>KeyError\<close> of the missing key, whatever the value of
  \<open>homeworks\<close> is when it is there. A dict with both keys whose \<open>homeworks\<close> is not a list
  fails with the \<open>TypeError\<close> "homeworks must have the type list".
\<close>

theorem check_response_order:
  "(\<not> is_dict response \<longrightarrow>
      snd (check_response response) = Inl (TypeError msg_expected_dict)) \<and>
   (map_of d (ascii ''homeworks'') = None \<or> map_of d (ascii ''current_date'') = None \<longrightarrow>
      snd (check_response (PDict d)) = Inl (KeyError msg_missing_key)) \<and>
   (map_of d' (ascii ''homeworks'') = Some h \<and> map_of d' (ascii ''current_date'') = Some c \<and>
    \<not> is_list h \<longrightarrow>
      snd (check_response (PDict d')) = Inl (TypeError msg_not_list))"
proof (intro conjI impI)
  assume "\<not> is_dict response"
  then show "snd (check_response response) = Inl (TypeError msg_expected_dict)"
    by (rule check_response_not_dict)
next
  assume "map_of d (ascii ''homeworks'') = None \<or> map_of d (ascii ''current_date'') = None"
  then show "snd (check_response (PDict d)) = Inl (KeyError msg_missing_key)"
    by (auto simp: check_response_def)
next
  assume "map_of d' (ascii ''homeworks'') = Some h \<and>
    map_of d' (ascii ''current_date'') = Some c \<and> \<not> is_list h"
  then show "snd (check_response (PDict d')) = Inl (TypeError msg_not_list)"
    by (cases h) (simp_all add: check_response_def dict_get_def)
qed

text \<open>
  The three cases at concrete responses: a list; \<open>{"homeworks": 7}\<close>, where the missing
  \<open>current_date\<close> is reported although \<open>homeworks\<close> is not a list either; and
  \<open>{"homeworks": 7, "current_date": 8}\<close>.
\<close>

theorem check_response_order_witness:
  "\<not> is_dict (PList []) \<and>
   snd (check_response (PList [])) = Inl (TypeError msg_expected_dict) \<and>
   map_of [(ascii ''homeworks'', PInt 7)] (ascii ''current_date'') = None \<and>
   snd (check_response (PDict [(ascii ''homeworks'', PInt 7)])) = Inl (KeyError msg_missing_key) \<and>
   \<not> is_list (PInt 7) \<and>
   snd (check_response (PDict [(ascii ''homeworks'', PInt 7), (ascii ''current_date'', PInt 8)])) =
     Inl (TypeError msg_not_list)"
  using check_response_order [where response = "PList []" and d = "[(ascii ''homeworks'', PInt 7)]"
      and d' = "[(ascii ''homeworks'', PInt 7), (ascii ''current_date'', PInt 8)]"
      and h = "PInt 7" and c = "PInt 8"]
  by simp

text \<open>
  The branch of \<open>main\<close> for "no new status" is there, and it is taken when the first record
  is false: with \<open>{"homeworks": [{}], "current_date": null}\<close> the pass logs the debug line,
  sends nothing and moves the cursor.
\<close>

lemma falsy_record_cycle:
  "outbox (main_cycle fmt (always (ok null_date_response)) bot' (initial_state now)) = [] \<and>
   (DEBUG, msg_no_new_status)
     \<in> set (log (main_cycle fmt (always (ok null_date_response)) bot' (initial_state now))) \<and>
   current_timestamp (main_cycle fmt (always (ok null_date_response)) bot' (initial_state now)) =
     PNone"
  by (simp add: main_cycle_def main_try_def get_api_answer_def check_response_def always_def
      ok_def null_date_response_def dict_get_def py_get_def initial_state_def)

text \<open>
  C1. The claim is that a response with both keys and an empty \<open>homeworks\<close> list is
  validated to "no record", that the loop then logs at low severity, sends nothing and
  moves the cursor to \<open>current_date\<close>. The code does otherwise: \<open>homeworks[0]\<close> on the empty
  list raises \<open>IndexError\<close> in \<open>check_response\<close>, so the pass ends in the handler. From the
  initial state, with \<open>{"homeworks": [], "current_date": 1000}\<close>, the loop sends the failure
  message "list index out of range", logs it as an error, and keeps the cursor where it was.
\<close>

theorem empty_homeworks_cycle:
  "snd (check_response empty_response) = Inl (IndexError (ascii ''list index out of range'')) \<and>
   outbox (main_cycle fmt (always (ok empty_response)) bot' (initial_state now)) =
     [msg_failure @ ascii ''list index out of range''] \<and>
   (ERROR, msg_failure @ ascii ''list index out of range'')
     \<in> set (log (main_cycle fmt (always (ok empty_response)) bot' (initial_state now))) \<and>
   (DEBUG, msg_no_new_status)
     \<notin> set (log (main_cycle fmt (always (ok empty_response)) bot' (initial_state now))) \<and>
   current_timestamp (main_cycle fmt (always (ok empty_response)) bot' (initial_state now)) =
     PInt now"
  by (simp add: main_cycle_def main_try_def main_except_def notify_new_def get_api_answer_def
      check_response_def always_def ok_def empty_response_def dict_get_def initial_state_def
      send_message_def msg_no_new_status_def msg_bot_sent_def split: send_result.split)

subsection \<open>The API client\<close>

text \<open>
  C5, amended. A fetch with the cursor \<open>t\<close>. When the request itself fails,
  \<open>get_api_answer\<close> raises a \<open>ConnectionError\<close> whose message is the "problems with the
  connection" text. When the server answers with a status other than 200, it raises an
  \<open>Exception\<close> whose message holds the endpoint and the status code. When the server
  answers 200 and the body decodes, the decoded value is returned as it is, whatever its
  shape. When the server answers 200 and the body does not decode, the exception of
  \<open>response.json()\<close> leaves \<open>get_api_answer\<close> as it is: nothing is returned, and the
  failure is neither the \<open>ConnectionError\<close> nor the \<open>Exception\<close> of the status.
\<close>

theorem get_api_answer_cases:
  "(api t = RequestFailed \<longrightarrow>
      snd (get_api_answer api t) = Inl (ConnectionError msg_connection)) \<and>
   (api t = Response status_code body \<and> status_code \<noteq> 200 \<longrightarrow>
      snd (get_api_answer api t) =
        Inl (Exception (msg_endpoint @ ENDPOINT @ msg_unavailable @ str_int status_code))) \<and>
   (api t = Response 200 (Inr decoded) \<longrightarrow> snd (get_api_answer api t) = Inr decoded) \<and>
   (api t = Response 200 (Inl description) \<longrightarrow>
      snd (get_api_answer api t) = Inl (JSONDecodeError description))"
  by (simp add: get_api_answer_def)

lemma str_int_503: "str_int 503 = ascii ''503''"
  by (simp add: str_int_def str_nat.simps ascii_def)

text \<open>A server that cannot be reached, one that answers 503, one that answers 200 with
  a string where the dict is expected, and one that answers 200 with a page of HTML.\<close>

theorem get_api_answer_cases_witness:
  "snd (get_api_answer (always RequestFailed) (PInt 5)) = Inl (ConnectionError msg_connection) \<and>
   (503::int) \<noteq> 200 \<and>
   snd (get_api_answer (always (Response 503 (Inl []))) (PInt 5)) =
     Inl (Exception (msg_endpoint @ ENDPOINT @ msg_unavailable @ ascii ''503'')) \<and>
   snd (get_api_answer (always (Response 200 (Inr (PStr (ascii ''no schema''))))) (PInt 5)) =
     Inr (PStr (ascii ''no schema'')) \<and>
   html_api (PInt 5) = Response 200 (Inl (ascii ''Expecting value'')) \<and>
   snd (get_api_answer html_api (PInt 5)) = Inl (JSONDecodeError (ascii ''Expecting value''))"
  using get_api_answer_cases [of "always RequestFailed" "PInt 5"]
    get_api_answer_cases [of "always (Response 503 (Inl []))" "PInt 5" 503 "Inl []"]
    get_api_answer_cases [of "always (Response 200 (Inr (PStr (ascii ''no schema''))))" "PInt 5"
      _ _ "PStr (ascii ''no schema'')"]
    get_api_answer_cases [of html_api "PInt 5" _ _ _ "ascii ''Expecting value''"]
  by (simp add: always_def str_int_503 html_api_def)

text \<open>
  C5 as it is stated fails for a fetch that is answered 200 with a body that is not JSON:
  the request did not fail and the status is 200, so the claim has the decoded body
  returned; \<open>get_api_answer\<close> returns nothing and raises the exception of the decoder.
\<close>

theorem undecodable_body_raises:
  "html_api (PInt 5) = Response 200 (Inl (ascii ''Expecting value'')) \<and>
   snd (get_api_answer html_api (PInt 5)) = Inl (JSONDecodeError (ascii ''Expecting value'')) \<and>
   isl (snd (get_api_answer html_api (PInt 5)))"
  by (simp add: get_api_answer_def html_api_def)

subsection \<open>The status translator\<close>

lemma dict_lookup_verdicts:
  "dict_lookup HOMEWORK_VERDICTS v =
     (if \<not> hashable v then Inl (unhashable v)
      else if v = PStr (ascii ''approved'') then Inr (Some verdict_approved)
      else if v = PStr (ascii ''reviewing'') then Inr (Some verdict_reviewing)
      else if v = PStr (ascii ''rejected'') then Inr (Some verdict_rejected)
      else Inr None)"
  by (cases v) (auto simp: dict_lookup_def HOMEWORK_VERDICTS_def)

lemma verdicts_table:
  "map_of HOMEWORK_VERDICTS (ascii ''approved'') = Some verdict_approved"
  "map_of HOMEWORK_VERDICTS (ascii ''reviewing'') = Some verdict_reviewing"
  "map_of HOMEWORK_VERDICTS (ascii ''rejected'') = Some verdict_rejected"
  "map fst HOMEWORK_VERDICTS = [ascii ''approved'', ascii ''reviewing'', ascii ''rejected'']"
  by (simp_all add: HOMEWORK_VERDICTS_def)

text \<open>
  C6, amended. Translating a record (a dict). Without \<open>homework_name\<close> it fails with the
  \<open>KeyError\<close> of that key, whether \<open>status\<close> is there or not. With \<open>homework_name\<close> and
  without \<open>status\<close> it fails with the \<open>KeyError\<close> of that key. With both, and a status
  that has a hash (anything but a list or a dict) and is not one of \<open>approved\<close>,
  \<open>reviewing\<close>, \<open>rejected\<close>, it fails with the "undocumented status" error, which is a
  \<open>KeyError\<close> too. With both and a status that is a list or a dict, the test
  \<open>status not in HOMEWORK_VERDICTS\<close> itself raises: the failure is the \<open>TypeError\<close>
  "unhashable type".
\<close>

theorem parse_status_errors:
  "(map_of d (ascii ''homework_name'') = None \<longrightarrow>
      parse_status fmt (PDict d) = Inl (KeyError (msg_no_key ''homework_name''))) \<and>
   (map_of d (ascii ''homework_name'') = Some name \<and> map_of d (ascii ''status'') = None \<longrightarrow>
      parse_status fmt (PDict d) = Inl (KeyError (msg_no_key ''status''))) \<and>
   (map_of d (ascii ''homework_name'') = Some name \<and> map_of d (ascii ''status'') = Some status \<and>
    hashable status \<and> status \<noteq> PStr (ascii ''approved'') \<and>
    status \<noteq> PStr (ascii ''reviewing'') \<and> status \<noteq> PStr (ascii ''rejected'') \<longrightarrow>
      parse_status fmt (PDict d) = Inl (KeyError msg_undocumented)) \<and>
   (map_of d (ascii ''homework_name'') = Some name \<and> map_of d (ascii ''status'') = Some status \<and>
    \<not> hashable status \<longrightarrow>
      parse_status fmt (PDict d) = Inl (unhashable status))"
  by (simp add: parse_status_def dict_lookup_verdicts)

text \<open>The four cases at concrete records.\<close>

theorem parse_status_errors_witness:
  "parse_status plain_fmt (PDict [(ascii ''status'', PStr (ascii ''approved''))]) =
     Inl (KeyError (msg_no_key ''homework_name'')) \<and>
   parse_status plain_fmt (PDict [(ascii ''homework_name'', PStr (ascii ''proj1''))]) =
     Inl (KeyError (msg_no_key ''status'')) \<and>
   hashable (PStr (ascii ''accepted'')) \<and>
   parse_status plain_fmt (PDict [(ascii ''homework_name'', PStr (ascii ''proj1'')),
       (ascii ''status'', PStr (ascii ''accepted''))]) = Inl (KeyError msg_undocumented) \<and>
   \<not> hashable (PList []) \<and>
   parse_status plain_fmt list_status_homework = Inl (unhashable (PList []))"
  using parse_status_errors [of "[(ascii ''status'', PStr (ascii ''approved''))]" plain_fmt]
    parse_status_errors [of "[(ascii ''homework_name'', PStr (ascii ''proj1''))]"
      plain_fmt "PStr (ascii ''proj1'')"]
    parse_status_errors [of "[(ascii ''homework_name'', PStr (ascii ''proj1'')),
       (ascii ''status'', PStr (ascii ''accepted''))]" plain_fmt "PStr (ascii ''proj1'')"
       "PStr (ascii ''accepted'')"]
    parse_status_errors [of "[(ascii ''homework_name'', PStr (ascii ''proj1'')),
       (ascii ''status'', PList [])]" plain_fmt "PStr (ascii ''proj1'')" "PList []"]
  by (simp add: list_status_homework_def)

text \<open>
  C6 as it is stated fails for the record \<open>{"homework_name": "proj1", "status": []}\<close>: the
  status is present and is not one of the three values, and the failure is a \<open>TypeError\<close>,
  not the "undocumented status" error.
\<close>

theorem parse_status_list_status:
  "parse_status plain_fmt list_status_homework =
     Inl (TypeError (ascii ''unhashable type: '' @ [39] @ ascii ''list'' @ [39])) \<and>
   parse_status plain_fmt list_status_homework \<noteq> Inl (KeyError msg_undocumented)"
  by (simp add: parse_status_def list_status_homework_def dict_lookup_verdicts unhashable_def)

text \<open>
  C7. For a record with \<open>homework_name\<close> and a status among \<open>approved\<close>, \<open>reviewing\<close>,
  \<open>rejected\<close>, \<open>parse_status\<close> returns the text "the review status of the work", the
  name between double quotes, a full stop, a space and the verdict that
  \<open>HOMEWORK_VERDICTS\<close> has for the status. A name that is a string is put in as it is.
  The table has these three keys and no other; it is a constant, and no state of the loop
  holds it.
\<close>

theorem parse_status_message:
  "(map_of d (ascii ''homework_name'') = Some name \<and>
    map_of d (ascii ''status'') = Some (PStr status) \<and>
    status \<in> {ascii ''approved'', ascii ''reviewing'', ascii ''rejected''} \<longrightarrow>
      (\<exists>verdict. map_of HOMEWORK_VERDICTS status = Some verdict \<and>
         parse_status fmt (PDict d) =
           Inr (msg_status_changed @ py_str fmt name @ [34, 46, 32] @ verdict))) \<and>
   py_str fmt (PStr n) = n \<and>
   map_of HOMEWORK_VERDICTS (ascii ''approved'') = Some verdict_approved \<and>
   map_of HOMEWORK_VERDICTS (ascii ''reviewing'') = Some verdict_reviewing \<and>
   map_of HOMEWORK_VERDICTS (ascii ''rejected'') = Some verdict_rejected \<and>
   map fst HOMEWORK_VERDICTS = [ascii ''approved'', ascii ''reviewing'', ascii ''rejected'']"
proof (intro conjI impI)
  assume "map_of d (ascii ''homework_name'') = Some name \<and>
    map_of d (ascii ''status'') = Some (PStr status) \<and>
    status \<in> {ascii ''approved'', ascii ''reviewing'', ascii ''rejected''}"
  then have name: "map_of d (ascii ''homework_name'') = Some name"
    and status: "map_of d (ascii ''status'') = Some (PStr status)"
    and known: "status = ascii ''approved'' \<or> status = ascii ''reviewing'' \<or>
      status = ascii ''rejected''"
    by simp_all
  from known show "\<exists>verdict. map_of HOMEWORK_VERDICTS status = Some verdict \<and>
      parse_status fmt (PDict d) =
        Inr (msg_status_changed @ py_str fmt name @ [34, 46, 32] @ verdict)"
    by (elim disjE) (simp_all add: parse_status_def name status dict_lookup_verdicts verdicts_table)
qed (simp_all add: verdicts_table)

text \<open>The record \<open>{"homework_name": "proj1", "status": "reviewing"}\<close>.\<close>

theorem parse_status_message_witness:
  "map_of [(ascii ''homework_name'', PStr (ascii ''proj1'')),
           (ascii ''status'', PStr (ascii ''reviewing''))] (ascii ''homework_name'') =
     Some (PStr (ascii ''proj1'')) \<and>
   ascii ''reviewing'' \<in> {ascii ''approved'', ascii ''reviewing'', ascii ''rejected''} \<and>
   parse_status plain_fmt reviewing_homework = Inr reviewing_message"
  using parse_status_message [of "[(ascii ''homework_name'', PStr (ascii ''proj1'')),
           (ascii ''status'', PStr (ascii ''reviewing''))]" "PStr (ascii ''proj1'')"
           "ascii ''reviewing''" plain_fmt]
  by (simp add: reviewing_homework_def reviewing_message_def verdicts_table)

subsection \<open>One pass of the loop\<close>

text \<open>The exceptions of the first three steps, step by step.\<close>

lemma cycle_result_raises:
  "cycle_result fmt api t = Inl e \<longleftrightarrow>
     snd (get_api_answer api t) = Inl e \<or>
     (\<exists>response. snd (get_api_answer api t) = Inr response \<and>
        snd (check_response response) = Inl e) \<or>
     (\<exists>response homeworks. snd (get_api_answer api t) = Inr response \<and>
        snd (check_response response) = Inr homeworks \<and> truthy homeworks \<and>
        parse_status fmt homeworks = Inl e)"
  by (auto simp: cycle_result_def split: sum.splits if_splits)

text \<open>What a pass does, by what its first three steps come to.\<close>

lemma notify_new_fields [simp]:
  "outbox (notify_new b s) =
     outbox s @ (if message s = previous_message s then [] else [message s])"
  "previous_message (notify_new b s) = message s"
  "message (notify_new b s) = message s"
  "current_timestamp (notify_new b s) = current_timestamp s"
  "slept (notify_new b s) = slept s"
  by (simp_all add: notify_new_def)

lemma check_response_dict:
  assumes "snd (check_response response) = Inr homeworks"
  obtains d where "response = PDict d"
  using assms by (cases response) (simp_all add: check_response_def)

lemma fst_get_api_answer: "fst (get_api_answer api t) = [(INFO, msg_request)]"
  by (simp add: get_api_answer_def)

lemma fst_check_response: "fst (check_response response) = [(INFO, msg_checking)]"
  by (simp add: check_response_def)

text \<open>The \<open>try\<close> raises exactly when one of the first three steps does: neither the send
  nor the assignment of the cursor raises.\<close>

lemma main_try_raises:
  "snd (main_try fmt api b s) =
     (case cycle_result fmt api (current_timestamp s) of Inl e \<Rightarrow> Some e | Inr m \<Rightarrow> None)"
proof (cases "snd (get_api_answer api (current_timestamp s))")
  case (Inl e)
  then show ?thesis
    by (cases "get_api_answer api (current_timestamp s)")
       (simp add: main_try_def cycle_result_def Let_def)
next
  case (Inr response)
  note fetch = this
  show ?thesis
  proof (cases "snd (check_response response)")
    case (Inl e)
    with fetch show ?thesis
      by (cases "get_api_answer api (current_timestamp s)"; cases "check_response response")
         (simp add: main_try_def cycle_result_def Let_def)
  next
    case (Inr homeworks)
    then obtain d where "response = PDict d" by (rule check_response_dict)
    with fetch Inr show ?thesis
      by (cases "get_api_answer api (current_timestamp s)"; cases "check_response response")
         (simp add: main_try_def cycle_result_def Let_def py_get_def split: sum.splits)
  qed
qed

lemma main_cycle_raise:
  assumes "cycle_result fmt api (current_timestamp s) = Inl e"
  shows "\<exists>l. main_cycle fmt api b s =
     (notify_new b (s\<lparr>message := msg_failure @ exc_str e,
        log := log s @ l @ [(ERROR, msg_failure @ exc_str e)]\<rparr>))
     \<lparr>slept := slept s + RETRY_PERIOD\<rparr>"
proof (cases "snd (get_api_answer api (current_timestamp s))")
  case (Inl e1)
  with assms have "e1 = e" by (simp add: cycle_result_def)
  with Inl have "main_cycle fmt api b s =
     (notify_new b (s\<lparr>message := msg_failure @ exc_str e,
        log := log s @ [(INFO, msg_request)] @ [(ERROR, msg_failure @ exc_str e)]\<rparr>))
     \<lparr>slept := slept s + RETRY_PERIOD\<rparr>"
    using fst_get_api_answer [of api "current_timestamp s"]
    by (cases "get_api_answer api (current_timestamp s)")
       (simp add: main_cycle_def main_try_def main_except_def Let_def)
  then show ?thesis by blast
next
  case (Inr response)
  note fetch = this
  show ?thesis
  proof (cases "snd (check_response response)")
    case (Inl e2)
    with assms fetch have "e2 = e" by (simp add: cycle_result_def)
    with Inl fetch have "main_cycle fmt api b s =
       (notify_new b (s\<lparr>message := msg_failure @ exc_str e,
          log := log s @ [(INFO, msg_request), (INFO, msg_checking)] @
            [(ERROR, msg_failure @ exc_str e)]\<rparr>))
       \<lparr>slept := slept s + RETRY_PERIOD\<rparr>"
      using fst_get_api_answer [of api "current_timestamp s"] fst_check_response [of response]
      by (cases "get_api_answer api (current_timestamp s)"; cases "check_response response")
         (simp add: main_cycle_def main_try_def main_except_def Let_def)
    then show ?thesis by blast
  next
    case (Inr homeworks)
    with assms fetch have t: "truthy homeworks" and p: "parse_status fmt homeworks = Inl e"
      by (auto simp: cycle_result_def split: if_splits sum.splits)
    with Inr fetch have "main_cycle fmt api b s =
       (notify_new b (s\<lparr>message := msg_failure @ exc_str e,
          log := log s @ [(INFO, msg_request), (INFO, msg_checking)] @
            [(ERROR, msg_failure @ exc_str e)]\<rparr>))
       \<lparr>slept := slept s + RETRY_PERIOD\<rparr>"
      using fst_get_api_answer [of api "current_timestamp s"] fst_check_response [of response]
      by (cases "get_api_answer api (current_timestamp s)"; cases "check_response response")
         (simp add: main_cycle_def main_try_def main_except_def Let_def)
    then show ?thesis by blast
  qed
qed

lemma main_cycle_message:
  assumes "cycle_result fmt api (current_timestamp s) = Inr (Some m)"
  shows "\<exists>d. snd (get_api_answer api (current_timestamp s)) = Inr (PDict d) \<and>
     main_cycle fmt api b s =
     (notify_new b (s\<lparr>log := log s @ [(INFO, msg_request), (INFO, msg_checking)],
        message := m\<rparr>))
     \<lparr>current_timestamp := dict_get d (ascii ''current_date''),
      slept := slept s + RETRY_PERIOD\<rparr>"
proof -
  from assms obtain response homeworks where
    fetch: "snd (get_api_answer api (current_timestamp s)) = Inr response" and
    valid: "snd (check_response response) = Inr homeworks" and
    t: "truthy homeworks" and p: "parse_status fmt homeworks = Inr m"
    by (auto simp: cycle_result_def split: if_splits sum.splits)
  from valid obtain d where d: "response = PDict d" by (rule check_response_dict)
  from fetch valid t p d have "main_cycle fmt api b s =
     (notify_new b (s\<lparr>log := log s @ [(INFO, msg_request), (INFO, msg_checking)],
        message := m\<rparr>))
     \<lparr>current_timestamp := dict_get d (ascii ''current_date''),
      slept := slept s + RETRY_PERIOD\<rparr>"
    using fst_get_api_answer [of api "current_timestamp s"] fst_check_response [of "PDict d"]
    by (cases "get_api_answer api (current_timestamp s)"; cases "check_response (PDict d)")
       (simp add: main_cycle_def main_try_def py_get_def Let_def)
  with fetch d show ?thesis by blast
qed

lemma main_cycle_quiet:
  assumes "cycle_result fmt api (current_timestamp s) = Inr None"
  shows "\<exists>d. snd (get_api_answer api (current_timestamp s)) = Inr (PDict d) \<and>
     main_cycle fmt api b s =
     s\<lparr>log := log s @ [(INFO, msg_request), (INFO, msg_checking), (DEBUG, msg_no_new_status)],
       current_timestamp := dict_get d (ascii ''current_date''),
       slept := slept s + RETRY_PERIOD\<rparr>"
proof -
  from assms obtain response homeworks where
    fetch: "snd (get_api_answer api (current_timestamp s)) = Inr response" and
    valid: "snd (check_response response) = Inr homeworks" and
    t: "\<not> truthy homeworks"
    by (auto simp: cycle_result_def split: if_splits sum.splits)
  from valid obtain d where d: "response = PDict d" by (rule check_response_dict)
  from fetch valid t d have "main_cycle fmt api b s =
     s\<lparr>log := log s @ [(INFO, msg_request), (INFO, msg_checking), (DEBUG, msg_no_new_status)],
       current_timestamp := dict_get d (ascii ''current_date''),
       slept := slept s + RETRY_PERIOD\<rparr>"
    using fst_get_api_answer [of api "current_timestamp s"] fst_check_response [of "PDict d"]
    by (cases "get_api_answer api (current_timestamp s)"; cases "check_response (PDict d)")
       (simp add: main_cycle_def main_try_def py_get_def Let_def)
  with fetch d show ?thesis by blast
qed

lemma main_cycle_produced:
  assumes "produced fmt api (current_timestamp s) = Some m"
  shows "outbox (main_cycle fmt api b s) =
           outbox s @ (if m = previous_message s then [] else [m]) \<and>
         previous_message (main_cycle fmt api b s) = m \<and>
         message (main_cycle fmt api b s) = m"
proof (cases "cycle_result fmt api (current_timestamp s)")
  case (Inl e)
  with assms have m: "m = msg_failure @ exc_str e" by (simp add: produced_def)
  from main_cycle_raise [OF Inl, of b] obtain l where
    "main_cycle fmt api b s =
       (notify_new b (s\<lparr>message := msg_failure @ exc_str e,
          log := log s @ l @ [(ERROR, msg_failure @ exc_str e)]\<rparr>))
       \<lparr>slept := slept s + RETRY_PERIOD\<rparr>" ..
  with m show ?thesis by simp
next
  case (Inr mo)
  with assms have mo: "mo = Some m" by (simp add: produced_def)
  from main_cycle_message [OF Inr [unfolded mo], of b] obtain d where
    "main_cycle fmt api b s =
       (notify_new b (s\<lparr>log := log s @ [(INFO, msg_request), (INFO, msg_checking)],
          message := m\<rparr>))
       \<lparr>current_timestamp := dict_get d (ascii ''current_date''),
        slept := slept s + RETRY_PERIOD\<rparr>" by blast
  then show ?thesis by simp
qed

lemma exc_arg_embedded: "sublist (exc_arg e) (p @ exc_str e)"
proof (cases e)
  case (KeyError m)
  have "sublist m ((p @ [39]) @ m @ [39])" by (rule sublist_appendI)
  with KeyError show ?thesis by simp
qed simp_all

text \<open>
  C2. When the fetch, the validation or the translation of a pass raises an exception,
  the pass builds the failure message: the "failure in the work of the program" text
  followed by \<open>str\<close> of the exception, which contains the description the exception was
  raised with. The message is logged as an error. It is handed to the bot when it differs
  from the last message sent, and only then; either way it is the last message sent after
  the pass. The cursor is left as it was, so the next pass fetches with the same value.
\<close>

theorem failure_message_cycle:
  "cycle_result fmt api (current_timestamp s) = Inl e \<longrightarrow>
     message (main_cycle fmt api b s) = msg_failure @ exc_str e \<and>
     sublist (exc_arg e) (message (main_cycle fmt api b s)) \<and>
     (ERROR, msg_failure @ exc_str e) \<in> set (log (main_cycle fmt api b s)) \<and>
     outbox (main_cycle fmt api b s) =
       outbox s @ (if msg_failure @ exc_str e = previous_message s then []
                   else [msg_failure @ exc_str e]) \<and>
     previous_message (main_cycle fmt api b s) = msg_failure @ exc_str e \<and>
     current_timestamp (main_cycle fmt api b s) = current_timestamp s"
proof
  assume raised: "cycle_result fmt api (current_timestamp s) = Inl e"
  from main_cycle_raise [OF raised, of b] obtain l where cycle:
    "main_cycle fmt api b s =
       (notify_new b (s\<lparr>message := msg_failure @ exc_str e,
          log := log s @ l @ [(ERROR, msg_failure @ exc_str e)]\<rparr>))
       \<lparr>slept := slept s + RETRY_PERIOD\<rparr>" ..
  have embedded: "sublist (exc_arg e) (msg_failure @ exc_str e)"
    by (rule exc_arg_embedded)
  have logged: "(ERROR, msg_failure @ exc_str e) \<in> set (log (main_cycle fmt api b s))"
    by (simp add: cycle notify_new_def)
  from cycle embedded logged show
    "message (main_cycle fmt api b s) = msg_failure @ exc_str e \<and>
     sublist (exc_arg e) (message (main_cycle fmt api b s)) \<and>
     (ERROR, msg_failure @ exc_str e) \<in> set (log (main_cycle fmt api b s)) \<and>
     outbox (main_cycle fmt api b s) =
       outbox s @ (if msg_failure @ exc_str e = previous_message s then []
                   else [msg_failure @ exc_str e]) \<and>
     previous_message (main_cycle fmt api b s) = msg_failure @ exc_str e \<and>
     current_timestamp (main_cycle fmt api b s) = current_timestamp s"
    by simp
qed

text \<open>A pass from the initial state with a server that cannot be reached.\<close>

lemma cycle_result_down:
  "cycle_result fmt (always RequestFailed) t = Inl (ConnectionError msg_connection)"
  by (simp add: cycle_result_def get_api_answer_def always_def)

theorem failure_message_cycle_witness:
  "cycle_result plain_fmt (always RequestFailed) (current_timestamp (initial_state 5)) =
     Inl (ConnectionError msg_connection) \<and>
   message (main_cycle plain_fmt (always RequestFailed) Sent (initial_state 5)) =
     msg_failure @ msg_connection \<and>
   outbox (main_cycle plain_fmt (always RequestFailed) Sent (initial_state 5)) =
     [msg_failure @ msg_connection] \<and>
   current_timestamp (main_cycle plain_fmt (always RequestFailed) Sent (initial_state 5)) =
     PInt 5"
  using failure_message_cycle [of plain_fmt "always RequestFailed" "initial_state 5"
      "ConnectionError msg_connection" Sent]
  by (simp add: cycle_result_down) (simp add: initial_state_def)

subsection \<open>Two passes with the same message\<close>

text \<open>
  C3, amended. When two consecutive passes produce the same message, the second pass sends
  nothing. The first pass sends the message exactly when it differs from the last message
  sent before it, and the message is the last one sent after the first pass and after the
  second. So the two passes send one notification when the message is new, and none when
  it is the last one sent already.
\<close>

theorem same_message_twice:
  "produced fmt api1 (current_timestamp s) = Some m \<and>
   produced fmt api2 (current_timestamp (main_cycle fmt api1 b1 s)) = Some m \<longrightarrow>
     outbox (main_cycle fmt api2 b2 (main_cycle fmt api1 b1 s)) =
       outbox s @ (if m = previous_message s then [] else [m]) \<and>
     outbox (main_cycle fmt api2 b2 (main_cycle fmt api1 b1 s)) =
       outbox (main_cycle fmt api1 b1 s) \<and>
     previous_message (main_cycle fmt api1 b1 s) = m \<and>
     previous_message (main_cycle fmt api2 b2 (main_cycle fmt api1 b1 s)) = m"
proof
  assume "produced fmt api1 (current_timestamp s) = Some m \<and>
    produced fmt api2 (current_timestamp (main_cycle fmt api1 b1 s)) = Some m"
  then have first: "produced fmt api1 (current_timestamp s) = Some m"
    and second: "produced fmt api2 (current_timestamp (main_cycle fmt api1 b1 s)) = Some m"
    by simp_all
  from main_cycle_produced [OF first, of b1] main_cycle_produced [OF second, of b2]
  show "outbox (main_cycle fmt api2 b2 (main_cycle fmt api1 b1 s)) =
       outbox s @ (if m = previous_message s then [] else [m]) \<and>
     outbox (main_cycle fmt api2 b2 (main_cycle fmt api1 b1 s)) =
       outbox (main_cycle fmt api1 b1 s) \<and>
     previous_message (main_cycle fmt api1 b1 s) = m \<and>
     previous_message (main_cycle fmt api2 b2 (main_cycle fmt api1 b1 s)) = m"
    by simp
qed

text \<open>Two passes from the initial state, the server answering with the same record under
  review both times: one notification.\<close>

lemma cycle_result_reviewing:
  "cycle_result plain_fmt (always (ok reviewing_response)) t = Inr (Some reviewing_message)"
  by (simp add: cycle_result_def get_api_answer_def always_def ok_def check_response_def
      reviewing_response_def dict_get_def reviewing_homework_def parse_status_def
      dict_lookup_def HOMEWORK_VERDICTS_def reviewing_message_def)

lemma produced_reviewing:
  "produced plain_fmt (always (ok reviewing_response)) t = Some reviewing_message"
  by (simp add: produced_def cycle_result_reviewing)

lemma reviewing_message_not_Nil [simp]: "reviewing_message \<noteq> []"
  by (simp add: reviewing_message_def msg_status_changed_def)

theorem same_message_twice_witness:
  "produced plain_fmt (always (ok reviewing_response)) (current_timestamp (initial_state 0)) =
     Some reviewing_message \<and>
   produced plain_fmt (always (ok reviewing_response))
     (current_timestamp (main_cycle plain_fmt (always (ok reviewing_response)) Sent
        (initial_state 0))) = Some reviewing_message \<and>
   reviewing_message \<noteq> previous_message (initial_state 0) \<and>
   outbox (main_cycle plain_fmt (always (ok reviewing_response)) Sent
     (main_cycle plain_fmt (always (ok reviewing_response)) Sent (initial_state 0))) =
     [reviewing_message]"
  using same_message_twice [of plain_fmt "always (ok reviewing_response)" "initial_state 0"
      reviewing_message "always (ok reviewing_response)" Sent Sent]
  by (simp add: produced_reviewing) (simp add: initial_state_def)

text \<open>
  C3 as it is stated fails for the second and third of three such passes: both produce the
  same message, and neither sends it, since the first pass did. Between the end of the
  first pass and the end of the third, no notification is sent, not one.
\<close>

theorem third_pass_silent:
  "produced plain_fmt (always (ok reviewing_response))
     (current_timestamp (main_loop plain_fmt [(always (ok reviewing_response), Sent)]
        (initial_state 0))) = Some reviewing_message \<and>
   produced plain_fmt (always (ok reviewing_response))
     (current_timestamp (main_loop plain_fmt
        [(always (ok reviewing_response), Sent), (always (ok reviewing_response), Sent)]
        (initial_state 0))) = Some reviewing_message \<and>
   outbox (main_loop plain_fmt
     [(always (ok reviewing_response), Sent), (always (ok reviewing_response), Sent),
      (always (ok reviewing_response), Sent)] (initial_state 0)) =
   outbox (main_loop plain_fmt [(always (ok reviewing_response), Sent)] (initial_state 0))"
  by (simp add: produced_reviewing main_cycle_produced)

subsection \<open>Failures of the send\<close>

text \<open>Two states that differ in their logs only are taken by a pass, whatever the bot does
  in it, to two states that differ in their logs only.\<close>

lemma forget_log_eq_iff:
  "forget_log s = forget_log s' \<longleftrightarrow>
     current_timestamp s = current_timestamp s' \<and> previous_message s = previous_message s' \<and>
     message s = message s' \<and> outbox s = outbox s' \<and> slept s = slept s'"
  by (cases s; cases s') (auto simp: forget_log_def)

lemma forget_log_main_cycle:
  assumes same: "forget_log s = forget_log s'"
  shows "forget_log (main_cycle fmt api b s) = forget_log (main_cycle fmt api b' s')"
proof -
  from same have t: "current_timestamp s' = current_timestamp s"
    and rest: "previous_message s' = previous_message s" "message s' = message s"
      "outbox s' = outbox s" "slept s' = slept s"
    by (simp_all add: forget_log_eq_iff)
  show ?thesis
  proof (cases "cycle_result fmt api (current_timestamp s)")
    case (Inl e)
    from main_cycle_raise [OF Inl, of b] obtain l where c:
      "main_cycle fmt api b s =
        (notify_new b (s\<lparr>message := msg_failure @ exc_str e,
          log := log s @ l @ [(ERROR, msg_failure @ exc_str e)]\<rparr>))
        \<lparr>slept := slept s + RETRY_PERIOD\<rparr>" ..
    from Inl t have "cycle_result fmt api (current_timestamp s') = Inl e" by simp
    from main_cycle_raise [OF this, of b'] obtain l' where c':
      "main_cycle fmt api b' s' =
        (notify_new b' (s'\<lparr>message := msg_failure @ exc_str e,
          log := log s' @ l' @ [(ERROR, msg_failure @ exc_str e)]\<rparr>))
        \<lparr>slept := slept s' + RETRY_PERIOD\<rparr>" ..
    show ?thesis by (simp add: forget_log_eq_iff c c' t rest)
  next
    case (Inr mo)
    show ?thesis
    proof (cases mo)
      case None
      with Inr have q: "cycle_result fmt api (current_timestamp s) = Inr None" by simp
      from main_cycle_quiet [OF q, of b] obtain d where d:
        "snd (get_api_answer api (current_timestamp s)) = Inr (PDict d)" and c:
        "main_cycle fmt api b s =
          s\<lparr>log := log s @ [(INFO, msg_request), (INFO, msg_checking),
                (DEBUG, msg_no_new_status)],
            current_timestamp := dict_get d (ascii ''current_date''),
            slept := slept s + RETRY_PERIOD\<rparr>" by blast
      from q t have "cycle_result fmt api (current_timestamp s') = Inr None" by simp
      from main_cycle_quiet [OF this, of b'] obtain d' where d':
        "snd (get_api_answer api (current_timestamp s')) = Inr (PDict d')" and c':
        "main_cycle fmt api b' s' =
          s'\<lparr>log := log s' @ [(INFO, msg_request), (INFO, msg_checking),
                (DEBUG, msg_no_new_status)],
            current_timestamp := dict_get d' (ascii ''current_date''),
            slept := slept s' + RETRY_PERIOD\<rparr>" by blast
      from d d' t have "d' = d" by simp
      then show ?thesis by (simp add: forget_log_eq_iff c c' t rest)
    next
      case (Some m)
      with Inr have q: "cycle_result fmt api (current_timestamp s) = Inr (Some m)" by simp
      from main_cycle_message [OF q, of b] obtain d where d:
        "snd (get_api_answer api (current_timestamp s)) = Inr (PDict d)" and c:
        "main_cycle fmt api b s =
          (notify_new b (s\<lparr>log := log s @ [(INFO, msg_request), (INFO, msg_checking)],
             message := m\<rparr>))
          \<lparr>current_timestamp := dict_get d (ascii ''current_date''),
           slept := slept s + RETRY_PERIOD\<rparr>" by blast
      from q t have "cycle_result fmt api (current_timestamp s') = Inr (Some m)" by simp
      from main_cycle_message [OF this, of b'] obtain d' where d':
        "snd (get_api_answer api (current_timestamp s')) = Inr (PDict d')" and c':
        "main_cycle fmt api b' s' =
          (notify_new b' (s'\<lparr>log := log s' @ [(INFO, msg_request), (INFO, msg_checking)],
             message := m\<rparr>))
          \<lparr>current_timestamp := dict_get d' (ascii ''current_date''),
           slept := slept s' + RETRY_PERIOD\<rparr>" by blast
      from d d' t have dd: "d' = d" by simp
      show ?thesis by (simp add: forget_log_eq_iff c c' t rest dd)
    qed
  qed
qed

lemma forget_log_main_loop:
  "forget_log s = forget_log s' \<Longrightarrow>
   forget_log (main_loop fmt passes s) =
     forget_log (main_loop fmt (map (\<lambda>(api, b). (api, Sent)) passes) s')"
proof (induction passes arbitrary: s s')
  case Nil
  then show ?case by simp
next
  case (Cons p passes)
  obtain api b where p: "p = (api, b)" by (cases p)
  from Cons.prems have "forget_log (main_cycle fmt api b s) =
      forget_log (main_cycle fmt api Sent s')"
    by (rule forget_log_main_cycle)
  then show ?case by (simp add: p Cons.IH)
qed

text \<open>
  C8. When the send fails, \<open>send_message\<close> logs the error, with its description, and
  returns. Nothing else comes of the failure. A pass in which the send fails ends in the
  state in which it ends when the send succeeds, but for the log: the same message is the
  last one sent, so that the next pass does not send it again, and no message is built
  about the failure. The same holds of any number of passes: the variables of the loop,
  the texts handed to the bot and the time slept are those of the run in which every send
  succeeds, so that the loop neither stops nor retries.
\<close>

theorem send_failure_contained:
  "send_message (TelegramError e) m =
     [(INFO, msg_bot_sent @ m), (ERROR, msg_send_error @ e)] \<and>
   forget_log (main_cycle fmt api (TelegramError e) s) =
     forget_log (main_cycle fmt api Sent s) \<and>
   forget_log (main_loop fmt passes s) =
     forget_log (main_loop fmt (map (\<lambda>(api, b). (api, Sent)) passes) s)"
proof (intro conjI)
  show "send_message (TelegramError e) m =
      [(INFO, msg_bot_sent @ m), (ERROR, msg_send_error @ e)]"
    by (simp add: send_message_def)
  show "forget_log (main_cycle fmt api (TelegramError e) s) =
      forget_log (main_cycle fmt api Sent s)"
    by (rule forget_log_main_cycle) (rule refl)
  show "forget_log (main_loop fmt passes s) =
      forget_log (main_loop fmt (map (\<lambda>(api, b). (api, Sent)) passes) s)"
    by (rule forget_log_main_loop) (rule refl)
qed

text \<open>Two passes with the same record under review, the send failing in both: one text is
  handed to the bot, the translated message, and it is the last message sent.\<close>

lemma two_reviewing_passes:
  "outbox (main_cycle plain_fmt (always (ok reviewing_response)) b2
     (main_cycle plain_fmt (always (ok reviewing_response)) b1 (initial_state 0))) =
     [reviewing_message] \<and>
   previous_message (main_cycle plain_fmt (always (ok reviewing_response)) b2
     (main_cycle plain_fmt (always (ok reviewing_response)) b1 (initial_state 0))) =
     reviewing_message"
  by (simp add: produced_reviewing main_cycle_produced) (simp add: initial_state_def)

theorem send_failure_contained_witness:
  "outbox (main_loop plain_fmt
     [(always (ok reviewing_response), TelegramError (ascii ''Timed out'')),
      (always (ok reviewing_response), TelegramError (ascii ''Timed out''))]
     (initial_state 0)) = [reviewing_message] \<and>
   previous_message (main_loop plain_fmt
     [(always (ok reviewing_response), TelegramError (ascii ''Timed out'')),
      (always (ok reviewing_response), TelegramError (ascii ''Timed out''))]
     (initial_state 0)) = reviewing_message"
proof -
  let ?failing = "[(always (ok reviewing_response), TelegramError (ascii ''Timed out'')),
      (always (ok reviewing_response), TelegramError (ascii ''Timed out''))]"
  have "forget_log (main_loop plain_fmt ?failing (initial_state 0)) =
      forget_log (main_loop plain_fmt (map (\<lambda>(api, b). (api, Sent)) ?failing) (initial_state 0))"
    using send_failure_contained [of "[]" "[]" plain_fmt "always RequestFailed" "initial_state 0"
        ?failing]
    by (elim conjE)
  then have same: "outbox (main_loop plain_fmt ?failing (initial_state 0)) =
      outbox (main_loop plain_fmt (map (\<lambda>(api, b). (api, Sent)) ?failing) (initial_state 0))"
    "previous_message (main_loop plain_fmt ?failing (initial_state 0)) =
      previous_message
        (main_loop plain_fmt (map (\<lambda>(api, b). (api, Sent)) ?failing) (initial_state 0))"
    by (simp_all only: forget_log_eq_iff)
  have sent: "outbox (main_loop plain_fmt (map (\<lambda>(api, b). (api, Sent)) ?failing)
        (initial_state 0)) = [reviewing_message]"
    "previous_message (main_loop plain_fmt (map (\<lambda>(api, b). (api, Sent)) ?failing)
        (initial_state 0)) = reviewing_message"
    using two_reviewing_passes [of Sent Sent] by simp_all
  from same(1) sent(1) have "outbox (main_loop plain_fmt ?failing (initial_state 0)) =
      [reviewing_message]"
    by (rule trans)
  moreover from same(2) sent(2) have
    "previous_message (main_loop plain_fmt ?failing (initial_state 0)) = reviewing_message"
    by (rule trans)
  ultimately show ?thesis ..
qed

subsection \<open>The cursor\<close>

text \<open>
  C9, amended. \<open>check_response\<close> looks at the presence of \<open>current_date\<close> only: two
  responses with the same \<open>homeworks\<close> that both have the key are logged and answered
  alike, whatever the two values of \<open>current_date\<close> are. And when the response passes
  \<open>check_response\<close> and the record it returns is false or is translated by \<open>parse_status\<close>,
  so that the pass stays on its success path, the pass ends with the cursor equal to the
  value of \<open>current_date\<close> in the response, whatever that value is; the next fetch is made
  with it.
\<close>

theorem cursor_takes_current_date:
  "(map_of d (ascii ''homeworks'') = map_of d' (ascii ''homeworks'') \<and>
    map_of d (ascii ''current_date'') \<noteq> None \<and> map_of d' (ascii ''current_date'') \<noteq> None \<longrightarrow>
      check_response (PDict d) = check_response (PDict d')) \<and>
   (snd (get_api_answer api (current_timestamp s)) = Inr (PDict r) \<and>
    snd (check_response (PDict r)) = Inr homeworks \<and>
    (\<not> truthy homeworks \<or> parse_status fmt homeworks = Inr m) \<longrightarrow>
      current_timestamp (main_cycle fmt api b s) = dict_get r (ascii ''current_date''))"
proof (intro conjI impI)
  assume "map_of d (ascii ''homeworks'') = map_of d' (ascii ''homeworks'') \<and>
    map_of d (ascii ''current_date'') \<noteq> None \<and> map_of d' (ascii ''current_date'') \<noteq> None"
  then show "check_response (PDict d) = check_response (PDict d')"
    by (auto simp: check_response_def dict_get_def)
next
  assume "snd (get_api_answer api (current_timestamp s)) = Inr (PDict r) \<and>
    snd (check_response (PDict r)) = Inr homeworks \<and>
    (\<not> truthy homeworks \<or> parse_status fmt homeworks = Inr m)"
  then have fetch: "snd (get_api_answer api (current_timestamp s)) = Inr (PDict r)"
    and valid: "snd (check_response (PDict r)) = Inr homeworks"
    and rec: "\<not> truthy homeworks \<or> parse_status fmt homeworks = Inr m"
    by simp_all
  show "current_timestamp (main_cycle fmt api b s) = dict_get r (ascii ''current_date'')"
  proof (cases "truthy homeworks")
    case False
    with fetch valid have "cycle_result fmt api (current_timestamp s) = Inr None"
      by (simp add: cycle_result_def)
    from main_cycle_quiet [OF this, of b] fetch show ?thesis
      by auto
  next
    case True
    with fetch valid rec have "cycle_result fmt api (current_timestamp s) = Inr (Some m)"
      by (simp add: cycle_result_def)
    from main_cycle_message [OF this, of b] fetch show ?thesis
      by auto
  qed
qed

text \<open>A pass from the initial state with the response
  \<open>{"homeworks": [{}], "current_date": null}\<close>: the cursor is \<open>None\<close> afterwards, which is
  not an integer. The validator answers the response with the string "tomorrow" as
  \<open>current_date\<close> in the same way.\<close>

theorem cursor_takes_current_date_witness:
  "map_of [(ascii ''homeworks'', PList [PDict []]), (ascii ''current_date'', PNone)]
     (ascii ''current_date'') \<noteq> None \<and>
   map_of [(ascii ''homeworks'', PList [PDict []]),
           (ascii ''current_date'', PStr (ascii ''tomorrow''))] (ascii ''current_date'') \<noteq> None \<and>
   check_response null_date_response =
     check_response (PDict [(ascii ''homeworks'', PList [PDict []]),
       (ascii ''current_date'', PStr (ascii ''tomorrow''))]) \<and>
   snd (check_response null_date_response) = Inr (PDict []) \<and>
   \<not> truthy (PDict []) \<and>
   current_timestamp (main_cycle plain_fmt (always (ok null_date_response)) Sent (initial_state 5)) =
     PNone \<and>
   \<not> is_int PNone"
  using cursor_takes_current_date [of
      "[(ascii ''homeworks'', PList [PDict []]), (ascii ''current_date'', PNone)]"
      "[(ascii ''homeworks'', PList [PDict []]),
        (ascii ''current_date'', PStr (ascii ''tomorrow''))]"
      "always (ok null_date_response)" "initial_state 5"
      "[(ascii ''homeworks'', PList [PDict []]), (ascii ''current_date'', PNone)]"
      "PDict []" plain_fmt "[]" Sent]
  by (simp add: null_date_response_def get_api_answer_def always_def ok_def dict_get_def
      check_response_def)

text \<open>
  C9 as it is stated fails for the response \<open>{"homeworks": [{"homework_name": "proj1",
  "status": "accepted"}], "current_date": null}\<close>: it passes \<open>check_response\<close>, its
  \<open>current_date\<close> is not an integer, and the translation of its record fails, so the pass
  ends in the handler and the cursor is, as before the pass, the integer 5.
\<close>

theorem unknown_status_keeps_cursor:
  "snd (check_response accepted_response) = Inr accepted_homework \<and>
   dict_get [(ascii ''homeworks'', PList [accepted_homework]), (ascii ''current_date'', PNone)]
     (ascii ''current_date'') = PNone \<and>
   parse_status plain_fmt accepted_homework = Inl (KeyError msg_undocumented) \<and>
   current_timestamp (main_cycle plain_fmt (always (ok accepted_response)) Sent (initial_state 5)) =
     PInt 5"
  by (simp add: main_cycle_def main_try_def main_except_def notify_new_def get_api_answer_def
      check_response_def always_def ok_def accepted_response_def accepted_homework_def
      dict_get_def parse_status_def dict_lookup_verdicts initial_state_def)

text \<open>The value reaches the server: with the server that wants an integer, the first pass
  leaves \<open>None\<close> in the cursor, and the second pass fetches with it and fails.\<close>

lemma none_cursor_reaches_server:
  "current_timestamp (main_loop fmt [(strict_api, Sent)] (initial_state 5)) = PNone \<and>
   outbox (main_loop fmt [(strict_api, Sent), (strict_api, Sent)] (initial_state 5)) =
     [msg_failure @ msg_connection]"
  by (simp add: main_cycle_def main_try_def main_except_def notify_new_def get_api_answer_def
      check_response_def strict_api_def ok_def null_date_response_def dict_get_def py_get_def
      initial_state_def)

subsection \<open>Startup\<close>

text \<open>
  C10, amended. \<open>check_tokens\<close> holds exactly when none of the three variables is unset.
  So it holds when all three are set, whatever their texts are, the empty text included,
  and \<open>main\<close> does not stop at the check: it hands the token it has to the constructor of
  the bot. When the constructor returns, the loop starts from the initial state, with the
  credentials as they are; when the constructor raises, its exception ends \<open>main\<close> before
  the loop.
\<close>

theorem check_tokens_unset_only:
  "check_tokens env =
     (PRACTICUM_TOKEN env \<noteq> None \<and> TELEGRAM_TOKEN env \<noteq> None \<and> TELEGRAM_CHAT_ID env \<noteq> None) \<and>
   check_tokens \<lparr>PRACTICUM_TOKEN = Some p, TELEGRAM_TOKEN = Some t, TELEGRAM_CHAT_ID = Some c\<rparr> \<and>
   main_start Bot \<lparr>PRACTICUM_TOKEN = Some p, TELEGRAM_TOKEN = Some t, TELEGRAM_CHAT_ID = Some c\<rparr>
       now =
     (case Bot (Some t) of
        Inl error \<Rightarrow> ([], Inl error)
      | Inr bot' \<Rightarrow> ([], Inr (bot', initial_state now))) \<and>
   (Bot (Some t) = Inr b \<longrightarrow>
      main_start Bot
        \<lparr>PRACTICUM_TOKEN = Some p, TELEGRAM_TOKEN = Some t, TELEGRAM_CHAT_ID = Some c\<rparr> now =
        ([], Inr (b, initial_state now))) \<and>
   (Bot (Some t) = Inl e \<longrightarrow>
      main_start Bot
        \<lparr>PRACTICUM_TOKEN = Some p, TELEGRAM_TOKEN = Some t, TELEGRAM_CHAT_ID = Some c\<rparr> now =
        ([], Inl e))"
  by (simp add: check_tokens_def main_start_def)

text \<open>
  With the constructor that refuses the empty token: the API token and the chat identifier
  are empty and the token of the bot is not, and the loop starts; and a first variable
  that is not set fails the check.
\<close>

theorem check_tokens_unset_only_witness:
  "check_tokens
     \<lparr>PRACTICUM_TOKEN = Some [], TELEGRAM_TOKEN = Some (ascii ''123456:ABC''),
      TELEGRAM_CHAT_ID = Some []\<rparr> \<and>
   strict_Bot (Some (ascii ''123456:ABC'')) = Inr (ascii ''123456:ABC'') \<and>
   main_start strict_Bot
     \<lparr>PRACTICUM_TOKEN = Some [], TELEGRAM_TOKEN = Some (ascii ''123456:ABC''),
      TELEGRAM_CHAT_ID = Some []\<rparr> 5 =
     ([], Inr (ascii ''123456:ABC'', initial_state 5)) \<and>
   \<not> check_tokens \<lparr>PRACTICUM_TOKEN = None, TELEGRAM_TOKEN = Some [], TELEGRAM_CHAT_ID = Some []\<rparr>"
  using check_tokens_unset_only [of
      "\<lparr>PRACTICUM_TOKEN = None, TELEGRAM_TOKEN = Some [], TELEGRAM_CHAT_ID = Some []\<rparr>"
      "[]" "ascii ''123456:ABC''" "[]" strict_Bot 5 "ascii ''123456:ABC''"
      "InvalidToken (ascii ''Invalid token'')"]
  by (simp add: strict_Bot_def)

text \<open>
  C10 as it is stated fails when the token of the bot is the empty one: the three variables
  are set, \<open>check_tokens\<close> holds, and the constructor refuses the token, so that \<open>main\<close>
  ends with \<open>InvalidToken\<close> and the loop does not start.
\<close>

theorem empty_token_stops_main:
  "check_tokens
     \<lparr>PRACTICUM_TOKEN = Some [], TELEGRAM_TOKEN = Some [], TELEGRAM_CHAT_ID = Some []\<rparr> \<and>
   main_start strict_Bot
     \<lparr>PRACTICUM_TOKEN = Some [], TELEGRAM_TOKEN = Some [], TELEGRAM_CHAT_ID = Some []\<rparr> 5 =
     ([], Inl (InvalidToken (ascii ''Invalid token''))) \<and>
   isl (snd (main_start strict_Bot
     \<lparr>PRACTICUM_TOKEN = Some [], TELEGRAM_TOKEN = Some [], TELEGRAM_CHAT_ID = Some []\<rparr> 5))"
  by (simp add: check_tokens_def main_start_def strict_Bot_def)

end
